theory Spec2Isabelle
  imports Complex_Main "HOL-Library.Multiset"
begin

section \<open>Python strings\<close>

text \<open>
  A Python \<open>str\<close> is the list of its Unicode code points, each a number. \<open>lit\<close> gives the
  code points of a literal of the source. \<open>str.strip\<close> follows \<open>str.isspace\<close> on every
  code point. \<open>str.lower\<close> maps the letters as the Unicode character database says:
  it is a parameter, called \<open>lower\<close>, of the functions that use it.
\<close>

type_synonym pystr = "nat list"

definition lit :: "string \<Rightarrow> pystr" where
  "lit s = map of_char s"

definition is_space :: "nat \<Rightarrow> bool" where
  \<comment> \<open>\<open>str.isspace\<close> on one code point: the characters of category Zs and of the
      bidirectional classes WS, B and S.\<close>
  "is_space c =
     ((0x09 \<le> c \<and> c \<le> 0x0D) \<or> (0x1C \<le> c \<and> c \<le> 0x20) \<or> c = 0x85 \<or> c = 0xA0
      \<or> c = 0x1680 \<or> (0x2000 \<le> c \<and> c \<le> 0x200A) \<or> c = 0x2028 \<or> c = 0x2029
      \<or> c = 0x202F \<or> c = 0x205F \<or> c = 0x3000)"

definition lstrip :: "pystr \<Rightarrow> pystr" where
  "lstrip s = dropWhile is_space s"

definition rstrip :: "pystr \<Rightarrow> pystr" where
  "rstrip s = rev (dropWhile is_space (rev s))"

definition strip :: "pystr \<Rightarrow> pystr" where
  \<comment> \<open>\<open>s.strip()\<close>\<close>
  "strip s = rstrip (lstrip s)"

fun join :: "pystr \<Rightarrow> pystr list \<Rightarrow> pystr" where
  \<comment> \<open>\<open>sep.join(xs)\<close>\<close>
  "join sep [] = []"
| "join sep [x] = x"
| "join sep (x # y # ys) = x @ sep @ join sep (y # ys)"

fun split :: "nat \<Rightarrow> pystr \<Rightarrow> pystr list" where
  \<comment> \<open>\<open>s.split(c)\<close> for a one-character separator: never the empty list.\<close>
  "split sep [] = [[]]"
| "split sep (c # cs) =
     (if c = sep then [] # split sep cs
      else (case split sep cs of [] \<Rightarrow> [[c]] | w # ws \<Rightarrow> (c # w) # ws))"

fun contains :: "pystr \<Rightarrow> pystr \<Rightarrow> bool" where
  \<comment> \<open>\<open>sub in s\<close> on two strings: \<open>sub\<close> occurs in \<open>s\<close> as a contiguous run.\<close>
  "contains sub [] = (sub = [])"
| "contains sub (c # cs) = (take (length sub) (c # cs) = sub \<or> contains sub cs)"

definition digit :: "nat \<Rightarrow> nat" where
  "digit d = 48 + d"

fun str_nat :: "nat \<Rightarrow> pystr" where
  "str_nat n = (if n < 10 then [digit n] else str_nat (n div 10) @ [digit (n mod 10)])"

declare str_nat.simps [simp del]

definition str_int :: "int \<Rightarrow> pystr" where
  \<comment> \<open>\<open>str(i)\<close>, which is what an f-string field \<open>{i}\<close> prints for an \<open>int\<close>.\<close>
  "str_int i = (if i < 0 then 0x2D # str_nat (nat (- i)) else str_nat (nat i))"

definition comma :: nat where
  "comma = 0x2C"

definition apostrophe :: pystr where
  "apostrophe = [0x27]"

definition dquote :: pystr where
  "dquote = [0x22]"

definition bullet :: pystr where
  \<comment> \<open>U+2022\<close>
  "bullet = [0x2022]"

section \<open>Employee records\<close>

text \<open>
  The roster holds the dictionaries read from the JSON file. A record is the dictionary
  of a well-formed employee, as \<open>models.py\<close> declares it: the keys read with
  \<open>employee['...']\<close> are plain fields; the keys declared \<open>Optional[str] = None\<close> and read
  with \<open>employee.get('...', default)\<close> are absent, present with the value \<open>null\<close>, or
  present with a string.
\<close>

datatype optional = Absent | Null | Present pystr

record employee =
  ident :: int
  name :: pystr
  skills :: "pystr list"
  experience_years :: int
  projects :: "pystr list"
  availability :: pystr
  email :: optional
  department :: optional
  location :: optional

definition get_or :: "optional \<Rightarrow> pystr \<Rightarrow> pystr option" where
  \<comment> \<open>\<open>d.get(key, default)\<close>: the default for an absent key only; \<open>None\<close> is Python's
      \<open>None\<close>, the value of a key that is present with \<open>null\<close>.\<close>
  "get_or v d = (case v of Absent \<Rightarrow> Some d | Null \<Rightarrow> None | Present s \<Rightarrow> Some s)"

definition format_field :: "pystr option \<Rightarrow> pystr" where
  \<comment> \<open>What an f-string field prints for a string or for \<open>None\<close>.\<close>
  "format_field v = (case v of None \<Rightarrow> lit ''None'' | Some s \<Rightarrow> s)"

definition employee_text_template :: "employee \<Rightarrow> pystr" where
  \<comment> \<open>The f-string of \<open>create_employee_text\<close>, before \<open>strip\<close>.\<close>
  "employee_text_template employee =
     (let skills_text = join (lit '', '') (skills employee);
          projects_text = join (lit '', '') (projects employee)
      in lit ''\<newline>        Name: '' @ name employee
       @ lit ''\<newline>        Skills: '' @ skills_text
       @ lit ''\<newline>        Experience: '' @ str_int (experience_years employee)
       @ lit '' years''
       @ lit ''\<newline>        Projects: '' @ projects_text
       @ lit ''\<newline>        Department: ''
       @ format_field (get_or (department employee) (lit ''Unknown''))
       @ lit ''\<newline>        Location: ''
       @ format_field (get_or (location employee) (lit ''Unknown''))
       @ lit ''\<newline>        Availability: '' @ availability employee
       @ lit ''\<newline>        '')"

definition create_employee_text :: "employee \<Rightarrow> pystr" where
  "create_employee_text employee = strip (employee_text_template employee)"

section \<open>What the program calls but does not define\<close>

datatype error =
  FileNotFoundError | OSError | JSONDecodeError | KeyError | TypeError | IndexError
| AttributeError | APIError

text \<open>
  The sentence-embedding model, scikit-learn's cosine similarity, NumPy's sort, the
  OpenAI client and Python's float formatting are parameters of the model. A similarity
  score is a \<open>real\<close>: the program only compares scores, and the order of the floats (NaN
  apart, which cosine similarity does not produce) is the order of the reals they denote.
  \<^item> \<open>encode text\<close>: the vector \<open>embeddings_model.encode\<close> gives one text;
  \<^item> \<open>cosine_similarity q v\<close>: the entry of \<open>cosine_similarity(q, matrix)[0]\<close> for row \<open>v\<close>;
  \<^item> \<open>tie_break values i\<close>: the rank \<open>np.argsort\<close> gives index \<open>i\<close> among the indices of
    equal value; NumPy's default sort does not say which of them comes first;
  \<^item> \<open>chat_completion system prompt\<close>: the body of the \<open>try\<close> block of
    \<open>generate_response\<close>, \<open>Inr\<close> the message content, \<open>Inl\<close> any \<open>Exception\<close> raised there;
  \<^item> \<open>format_2f\<close>, \<open>format_pct\<close>: the format specifications \<open>:.2f\<close> and \<open>:.1%\<close>.
\<close>

record 'v externals =
  encode :: "pystr \<Rightarrow> 'v"
  cosine_similarity :: "'v \<Rightarrow> 'v \<Rightarrow> real"
  tie_break :: "real list \<Rightarrow> nat \<Rightarrow> nat"
  chat_completion :: "pystr \<Rightarrow> pystr \<Rightarrow> error + pystr"
  format_2f :: "real \<Rightarrow> pystr"
  format_pct :: "real \<Rightarrow> pystr"

section \<open>Loading the roster\<close>

datatype json =
  JNull | JBool bool | JNumber real | JString string | JArray "json list"
| JObject "(string \<times> json) list"

text \<open>
  The loader looks one member of the document up by its name and reads no other string:
  the strings of a document stay the bytes the file holds.
\<close>

text \<open>
  What \<open>open\<close> and \<open>json.load\<close> make of the employees file: the file is missing, it
  cannot be opened for another reason, its content is not JSON, or it parses to a value.
\<close>

datatype source = Missing | Unreadable | Malformed | Parsed json

fun subscript :: "json \<Rightarrow> string \<Rightarrow> error + json" where
  \<comment> \<open>\<open>data[key]\<close> with a string key; \<open>json.load\<close> keeps the last of duplicate members.\<close>
  "subscript (JObject members) key =
     (case map_of (rev members) key of None \<Rightarrow> Inl KeyError | Some v \<Rightarrow> Inr v)"
| "subscript _ key = Inl TypeError"

fun load_employees :: "source \<Rightarrow> error + json" where
  "load_employees Missing = Inr (JArray [])"
| "load_employees Unreadable = Inl OSError"
| "load_employees Malformed = Inl JSONDecodeError"
| "load_employees (Parsed data) = subscript data ''employees''"

section \<open>The retrieval pipeline\<close>

record 'v rag_system =
  employees :: "employee list"
  employee_embeddings :: "'v list"

definition create_employee_embeddings :: "'v externals \<Rightarrow> employee list \<Rightarrow> 'v list" where
  "create_employee_embeddings ext emps =
     (if emps = [] then [] else map (encode ext) (map create_employee_text emps))"

definition RAGSystem_init :: "'v externals \<Rightarrow> employee list \<Rightarrow> 'v rag_system" where
  \<comment> \<open>\<open>__init__\<close>, from the roster that \<open>load_employees\<close> returned.\<close>
  "RAGSystem_init ext emps =
     \<lparr>employees = emps, employee_embeddings = create_employee_embeddings ext emps\<rparr>"

definition argsort :: "(real list \<Rightarrow> nat \<Rightarrow> nat) \<Rightarrow> real list \<Rightarrow> nat list" where
  \<comment> \<open>\<open>np.argsort\<close>: the indices in ascending order of their values. The order of the
      indices of equal value is not specified: they come by ascending \<open>tie xs\<close>, any
      function. Every ascending arrangement of the indices is the result for some \<open>tie\<close>
      (\<open>argsort_any_order\<close> below).\<close>
  "argsort tie xs = sort_key (\<lambda>i. xs ! i) (sort_key (tie xs) [0..<length xs])"

definition slice_to :: "int \<Rightarrow> 'a list \<Rightarrow> 'a list" where
  \<comment> \<open>\<open>xs[:k]\<close>; a negative \<open>k\<close> counts from the end.\<close>
  "slice_to k xs = (if 0 \<le> k then take (nat k) xs else take (length xs - nat (- k)) xs)"

definition top_indices :: "(real list \<Rightarrow> nat \<Rightarrow> nat) \<Rightarrow> real list \<Rightarrow> int \<Rightarrow> nat list" where
  \<comment> \<open>\<open>np.argsort(similarities)[::-1][:top_k]\<close>\<close>
  "top_indices tie similarities top_k = slice_to top_k (rev (argsort tie similarities))"

definition relevant_indices :: "(real list \<Rightarrow> nat \<Rightarrow> nat) \<Rightarrow> real list \<Rightarrow> int \<Rightarrow> nat list" where
  \<comment> \<open>The indices of \<open>top_indices\<close> that pass the test \<open>similarities[idx] > 0.1\<close> of the
      loop; \<open>1 / 10\<close> stands for the float that \<open>0.1\<close> denotes.\<close>
  "relevant_indices tie similarities top_k =
     filter (\<lambda>idx. similarities ! idx > 1 / 10) (top_indices tie similarities top_k)"

fun collect_relevant ::
  "employee list \<Rightarrow> real list \<Rightarrow> nat list \<Rightarrow> (employee \<times> real) list
     \<Rightarrow> error + (employee \<times> real) list" where
  \<comment> \<open>The \<open>for idx in top_indices\<close> loop; \<open>self.employees[idx]\<close> raises out of range.\<close>
  "collect_relevant emps similarities [] relevant_employees = Inr relevant_employees"
| "collect_relevant emps similarities (idx # rest) relevant_employees =
     (if similarities ! idx > 1 / 10
      then (if idx < length emps
            then collect_relevant emps similarities rest
                   (relevant_employees @ [(emps ! idx, similarities ! idx)])
            else Inl IndexError)
      else collect_relevant emps similarities rest relevant_employees)"

definition query_similarities :: "'v externals \<Rightarrow> 'v rag_system \<Rightarrow> pystr \<Rightarrow> real list" where
  "query_similarities ext sys query =
     (let query_embedding = encode ext query
      in map (cosine_similarity ext query_embedding) (employee_embeddings sys))"

definition retrieve_relevant_employees ::
  "'v externals \<Rightarrow> 'v rag_system \<Rightarrow> pystr \<Rightarrow> int \<Rightarrow> error + (employee \<times> real) list" where
  "retrieve_relevant_employees ext sys query top_k =
     (if employees sys = [] \<or> length (employee_embeddings sys) = 0 then Inr []
      else let similarities = query_similarities ext sys query
           in collect_relevant (employees sys) similarities
                (top_indices (tie_break ext) similarities top_k) [])"

section \<open>The response\<close>

definition no_match_message :: pystr where
  "no_match_message =
     lit ''I couldn'' @ apostrophe @ lit ''t find any employees matching your criteria. ''
     @ lit ''Please try refining your search.''"

definition context_entry :: "'v externals \<Rightarrow> employee \<Rightarrow> real \<Rightarrow> pystr" where
  "context_entry ext employee score =
     lit ''**'' @ name employee @ lit ''** ('' @ str_int (experience_years employee)
       @ lit '' years experience)\<newline>''
     @ lit ''Skills: '' @ join (lit '', '') (skills employee) @ lit ''\<newline>''
     @ lit ''Recent Projects: '' @ join (lit '', '') (projects employee) @ lit ''\<newline>''
     @ lit ''Department: '' @ format_field (get_or (department employee) (lit ''Unknown''))
       @ lit ''\<newline>''
     @ lit ''Location: '' @ format_field (get_or (location employee) (lit ''Unknown''))
       @ lit ''\<newline>''
     @ lit ''Availability: '' @ availability employee @ lit ''\<newline>''
     @ lit ''Relevance Score: '' @ format_2f ext score @ lit ''\<newline>\<newline>''"

definition build_context :: "'v externals \<Rightarrow> (employee \<times> real) list \<Rightarrow> pystr" where
  "build_context ext relevant_employees =
     foldl (\<lambda>context (employee, score). context @ context_entry ext employee score)
       (lit ''Here are the relevant employees I found:\<newline>\<newline>'') relevant_employees"

definition build_prompt :: "pystr \<Rightarrow> pystr \<Rightarrow> pystr" where
  "build_prompt query context =
     lit ''\<newline>        You are an HR assistant helping to find the right employees for specific requirements.''
     @ lit ''\<newline>        ''
     @ lit ''\<newline>        User Query: '' @ dquote @ query @ dquote
     @ lit ''\<newline>        ''
     @ lit ''\<newline>        '' @ context
     @ lit ''\<newline>        ''
     @ lit ''\<newline>        Please provide a helpful response that:''
     @ lit ''\<newline>        1. Directly addresses the user'' @ apostrophe @ lit ''s query''
     @ lit ''\<newline>        2. Highlights the most relevant candidates and why they''
       @ apostrophe @ lit ''re a good fit''
     @ lit ''\<newline>        3. Mentions specific skills and experience that match the requirements''
     @ lit ''\<newline>        4. Provides practical next steps or suggestions''
     @ lit ''\<newline>        5. Uses a professional but conversational tone''
     @ lit ''\<newline>        ''
     @ lit ''\<newline>        If multiple candidates are found, rank them by relevance and explain the differences.''
     @ lit ''\<newline>        If availability is a concern, mention it appropriately.''
     @ lit ''\<newline>        ''"

definition system_message :: pystr where
  "system_message =
     lit ''You are a helpful HR assistant that provides detailed, actionable ''
     @ lit ''recommendations for employee resource allocation.''"

definition fallback_entry :: "'v externals \<Rightarrow> nat \<Rightarrow> employee \<Rightarrow> real \<Rightarrow> pystr" where
  "fallback_entry ext i employee score =
     lit ''**'' @ str_nat i @ lit ''. '' @ name employee @ lit ''** (''
       @ str_int (experience_years employee) @ lit '' years experience)\<newline>''
     @ lit ''   '' @ bullet @ lit '' Skills: '' @ join (lit '', '') (skills employee)
       @ lit ''\<newline>''
     @ lit ''   '' @ bullet @ lit '' Recent Projects: '' @ join (lit '', '') (projects employee)
       @ lit ''\<newline>''
     @ lit ''   '' @ bullet @ lit '' Availability: '' @ availability employee @ lit ''\<newline>''
     @ lit ''   '' @ bullet @ lit '' Match Score: '' @ format_pct ext score
       @ lit ''\<newline>\<newline>''"

definition generate_fallback_response ::
  "'v externals \<Rightarrow> pystr \<Rightarrow> (employee \<times> real) list \<Rightarrow> pystr" where
  "generate_fallback_response ext query relevant_employees =
     (if relevant_employees = [] then no_match_message
      else
        let response = lit ''Based on your query '' @ apostrophe @ query @ apostrophe
                         @ lit '', I found '' @ str_nat (length relevant_employees)
                         @ lit '' relevant candidate(s):\<newline>\<newline>'';
            response = foldl (\<lambda>response (i, (employee, score)).
                                 response @ fallback_entry ext i employee score)
                         response (enumerate 1 relevant_employees)
        in response @ lit ''Would you like more details about any of these candidates ''
             @ lit ''or help with scheduling interviews?'')"

definition generate_response ::
  "'v externals \<Rightarrow> pystr \<Rightarrow> (employee \<times> real) list \<Rightarrow> pystr" where
  "generate_response ext query relevant_employees =
     (if relevant_employees = [] then no_match_message
      else
        let context = build_context ext relevant_employees;
            prompt = build_prompt query context
        in case chat_completion ext system_message prompt of
             Inr content \<Rightarrow> content
           | Inl e \<Rightarrow> generate_fallback_response ext query relevant_employees)"

section \<open>The query pipeline\<close>

record query_result =
  response :: pystr
  relevant_employees :: "employee list"
  confidence_score :: real

definition process_query :: "'v externals \<Rightarrow> 'v rag_system \<Rightarrow> pystr \<Rightarrow> error + query_result" where
  "process_query ext sys query =
     (case retrieve_relevant_employees ext sys query 5 of
        Inl e \<Rightarrow> Inl e
      | Inr relevant \<Rightarrow>
          Inr \<lparr>response = generate_response ext query relevant,
               relevant_employees = map fst relevant,
               confidence_score = (case relevant of [] \<Rightarrow> 0 | first # _ \<Rightarrow> snd first)\<rparr>)"

section \<open>The search endpoint\<close>

record search_result =
  result_employees :: "employee list"
  result_count :: nat

text \<open>
  A query parameter left out is \<open>None\<close>. Python's truth test \<open>if x:\<close> fails on \<open>None\<close>,
  on the empty string and on the number \<open>0\<close>. Each of the four \<open>if\<close> blocks of the
  endpoint is a function here; \<open>lower\<close> is \<open>str.lower\<close>.
\<close>

definition skill_list_of :: "(pystr \<Rightarrow> pystr) \<Rightarrow> pystr \<Rightarrow> pystr list" where
  \<comment> \<open>\<open>[s.strip().lower() for s in skills.split(",")]\<close>\<close>
  "skill_list_of lower skills_param = map (\<lambda>s. lower (strip s)) (split comma skills_param)"

definition has_any_skill :: "(pystr \<Rightarrow> pystr) \<Rightarrow> pystr list \<Rightarrow> employee \<Rightarrow> bool" where
  \<comment> \<open>\<open>any(skill.lower() in [s.lower() for s in emp["skills"]] for skill in skill_list)\<close>:
      \<open>in\<close> on a list is membership, an element equal to \<open>skill.lower()\<close>.\<close>
  "has_any_skill lower skill_list emp =
     list_ex (\<lambda>skill. lower skill \<in> set (map lower (skills emp))) skill_list"

definition filter_by_skills ::
  "(pystr \<Rightarrow> pystr) \<Rightarrow> pystr option \<Rightarrow> employee list \<Rightarrow> employee list" where
  "filter_by_skills lower skills_param filtered_employees =
     (case skills_param of
        Some s \<Rightarrow>
          if s \<noteq> []
          then filter (has_any_skill lower (skill_list_of lower s)) filtered_employees
          else filtered_employees
      | None \<Rightarrow> filtered_employees)"

definition filter_by_experience :: "int option \<Rightarrow> employee list \<Rightarrow> employee list" where
  "filter_by_experience min_experience filtered_employees =
     (case min_experience of
        Some m \<Rightarrow>
          if m \<noteq> 0 then filter (\<lambda>emp. experience_years emp \<ge> m) filtered_employees
          else filtered_employees
      | None \<Rightarrow> filtered_employees)"

definition filter_by_availability ::
  "(pystr \<Rightarrow> pystr) \<Rightarrow> pystr option \<Rightarrow> employee list \<Rightarrow> employee list" where
  "filter_by_availability lower availability_param filtered_employees =
     (case availability_param of
        Some a \<Rightarrow>
          if a \<noteq> []
          then filter (\<lambda>emp. lower (availability emp) = lower a) filtered_employees
          else filtered_employees
      | None \<Rightarrow> filtered_employees)"

fun department_matches ::
  "(pystr \<Rightarrow> pystr) \<Rightarrow> pystr \<Rightarrow> employee list \<Rightarrow> error + employee list" where
  \<comment> \<open>\<open>[emp for emp in filtered_employees
        if emp.get("department", "").lower() == department.lower()]\<close>: \<open>None\<close> has no
      method \<open>lower\<close>, so an employee whose department is \<open>null\<close> raises.\<close>
  "department_matches lower d [] = Inr []"
| "department_matches lower d (emp # rest) =
     (case get_or (department emp) [] of
        None \<Rightarrow> Inl AttributeError
      | Some own \<Rightarrow>
          (case department_matches lower d rest of
             Inl e \<Rightarrow> Inl e
           | Inr kept \<Rightarrow> Inr (if lower own = lower d then emp # kept else kept)))"

definition filter_by_department ::
  "(pystr \<Rightarrow> pystr) \<Rightarrow> pystr option \<Rightarrow> employee list \<Rightarrow> error + employee list" where
  "filter_by_department lower department_param filtered_employees =
     (case department_param of
        Some d \<Rightarrow>
          if d \<noteq> [] then department_matches lower d filtered_employees
          else Inr filtered_employees
      | None \<Rightarrow> Inr filtered_employees)"

definition search_employees ::
  "(pystr \<Rightarrow> pystr) \<Rightarrow> employee list \<Rightarrow> pystr option \<Rightarrow> int option \<Rightarrow> pystr option
     \<Rightarrow> pystr option \<Rightarrow> error + search_result" where
  "search_employees lower roster skills_param min_experience availability_param
       department_param =
     (let filtered_employees = roster;
          filtered_employees = filter_by_skills lower skills_param filtered_employees;
          filtered_employees = filter_by_experience min_experience filtered_employees;
          filtered_employees =
            filter_by_availability lower availability_param filtered_employees
      in case filter_by_department lower department_param filtered_employees of
           Inl e \<Rightarrow> Inl e
         | Inr filtered_employees \<Rightarrow>
             Inr \<lparr>result_employees = filtered_employees,
                  result_count = length filtered_employees\<rparr>)"

text \<open>
  The filter the specification describes for the skills parameter: a requested skill
  matches a skill of the employee when, case apart, it is equal to it or occurs in it.
\<close>

definition spec_skill_match :: "(pystr \<Rightarrow> pystr) \<Rightarrow> pystr \<Rightarrow> pystr \<Rightarrow> bool" where
  "spec_skill_match lower requested skill =
     (lower requested = lower skill \<or> contains (lower requested) (lower skill))"

definition spec_search_by_skills ::
  "(pystr \<Rightarrow> pystr) \<Rightarrow> employee list \<Rightarrow> pystr \<Rightarrow> employee list" where
  "spec_search_by_skills lower roster skills_param =
     filter (\<lambda>emp. list_ex (\<lambda>requested. list_ex (spec_skill_match lower requested)
                                          (skills emp))
                     (map strip (split comma skills_param))) roster"

section \<open>Sample data\<close>

definition ascii_lower :: "pystr \<Rightarrow> pystr" where
  \<comment> \<open>\<open>str.lower\<close> on ASCII text, which the samples are.\<close>
  "ascii_lower s = map (\<lambda>c. if 65 \<le> c \<and> c \<le> 90 then c + 32 else c) s"

definition alice :: employee where
  "alice = \<lparr>ident = 1, name = lit ''Alice'', skills = [lit ''Python'', lit ''ML''],
            experience_years = 5, projects = [lit ''Health AI''],
            availability = lit ''available'',
            email = Absent, department = Absent, location = Absent\<rparr>"

definition bob :: employee where
  "bob = \<lparr>ident = 2, name = lit ''Bob'', skills = [lit ''React'', lit ''AWS''],
          experience_years = 3, projects = [lit ''Shop UI''], availability = lit ''busy'',
          email = Absent, department = Present (lit ''Web''), location = Absent\<rparr>"

definition carol :: employee where
  "carol = \<lparr>ident = 3, name = lit ''Carol'', skills = [lit ''Go''],
            experience_years = 0, projects = [], availability = lit ''available'',
            email = Absent, department = Absent, location = Present (lit ''Pune'')\<rparr>"

definition dana :: employee where
  \<comment> \<open>An availability that ends with a space, a department that is \<open>null\<close>.\<close>
  "dana = \<lparr>ident = 4, name = lit ''Dana'', skills = [lit ''SQL''],
           experience_years = 7, projects = [lit ''Ledger''], availability = lit ''busy '',
           email = Absent, department = Null, location = Absent\<rparr>"

definition stub :: "(real list \<Rightarrow> nat \<Rightarrow> nat) \<Rightarrow> (real \<Rightarrow> real) \<Rightarrow> nat externals" where
  \<comment> \<open>Test doubles: a text is embedded as its length, the similarity of a row is a
      function of that length, the generative call always fails.\<close>
  "stub tie score =
     \<lparr>encode = length, cosine_similarity = (\<lambda>q v. score (real v)), tie_break = tie,
      chat_completion = (\<lambda>system prompt. Inl APIError),
      format_2f = (\<lambda>x. lit ''0.50''), format_pct = (\<lambda>x. lit ''50.0%'')\<rparr>"

definition tied :: "nat externals" where
  \<comment> \<open>Every employee scores 0.5; equal values are sorted in index order, as by the
      insertion sort NumPy runs on a short array.\<close>
  "tied = stub (\<lambda>values i. i) (\<lambda>x. 1 / 2)"

definition tied_other :: "nat externals" where
  \<comment> \<open>Every employee scores 0.5; equal values are sorted in reverse index order.\<close>
  "tied_other = stub (\<lambda>values i. length values - i) (\<lambda>x. 1 / 2)"

definition by_length :: "nat externals" where
  \<comment> \<open>On the sample data: Alice 1.5, Bob 0.2, Carol -0.5.\<close>
  "by_length = stub (\<lambda>values i. i) (\<lambda>x. (x - 165) / 10)"

section \<open>The order of the ranking\<close>

lemma sorted_argsort: "sorted (map (\<lambda>i. xs ! i) (argsort tie xs))"
  by (simp add: argsort_def)

lemma mset_argsort: "mset (argsort tie xs) = mset [0..<length xs]"
  by (simp add: argsort_def)

lemma set_argsort: "set (argsort tie xs) = {0..<length xs}"
  by (simp add: argsort_def)

lemma distinct_argsort: "distinct (argsort tie xs)"
  by (simp add: argsort_def)

text \<open>
  The parameter \<open>tie\<close> leaves out no result of \<open>np.argsort\<close>: every arrangement of the
  indices in ascending order of their values is \<open>argsort tie xs\<close> for some \<open>tie\<close>.
\<close>

lemma argsort_any_order:
  assumes perm: "mset ps = mset [0..<length xs]"
    and asc: "sorted (map (\<lambda>i. xs ! i) ps)"
  shows "\<exists>tie. argsort tie xs = ps"
proof -
  let ?pos = "the_inv_into {..<length ps} (nth ps)"
  have dist: "distinct ps"
    using perm by (metis distinct_upt mset_eq_imp_distinct_iff)
  then have inj: "inj_on (nth ps) {..<length ps}"
    by (simp add: inj_on_nth)
  have "map ?pos ps = map ?pos (map (nth ps) [0..<length ps])"
    by (simp add: map_nth)
  also have "\<dots> = [0..<length ps]"
    by (rule map_idI [where f = "?pos \<circ> nth ps", simplified comp_def map_map [symmetric, unfolded comp_def]])
       (simp add: the_inv_into_f_f [OF inj])
  finally have pos: "map ?pos ps = [0..<length ps]" .
  have "inj_on ?pos (nth ps ` {..<length ps})"
    by (rule inj_on_the_inv_into [OF inj])
  moreover have "nth ps ` {..<length ps} = set ps"
    by (auto simp: set_conv_nth)
  moreover have "set ps = set [0..<length xs]"
    using perm by (rule mset_eq_setD)
  ultimately have "inj_on ?pos (set [0..<length xs])"
    by simp
  moreover have "sorted (map ?pos ps)"
    by (simp add: pos)
  ultimately have "sort_key ?pos [0..<length xs] = ps"
    using perm by (intro sort_key_inj_key_eq) simp_all
  then have "argsort (\<lambda>values. ?pos) xs = ps"
    using asc by (simp add: argsort_def sort_key_id_if_sorted)
  then show ?thesis
    by blast
qed

lemma slice_to_sub: "set (slice_to k xs) \<subseteq> set xs"
  by (auto simp: slice_to_def dest: in_set_takeD)

lemma sorted_wrt_slice_to: "sorted_wrt R xs \<Longrightarrow> sorted_wrt R (slice_to k xs)"
  by (simp add: slice_to_def sorted_wrt_take)

lemma distinct_slice_to: "distinct xs \<Longrightarrow> distinct (slice_to k xs)"
  by (simp add: slice_to_def)

lemma rev_argsort_descending:
  "sorted_wrt (\<lambda>a b. xs ! b \<le> xs ! a) (rev (argsort tie xs))"
  using sorted_argsort [of xs tie] by (simp add: sorted_wrt_rev sorted_map)

lemma relevant_indices_descending:
  "sorted_wrt (\<lambda>a b. xs ! b \<le> xs ! a) (relevant_indices tie xs k)"
  unfolding relevant_indices_def top_indices_def
  by (intro sorted_wrt_filter sorted_wrt_slice_to rev_argsort_descending)

lemma rev_placed_later:
  "sorted_wrt (\<lambda>a b. \<exists>p q. p < q \<and> q < length order \<and> order ! p = b \<and> order ! q = a)
     (rev order)"
  unfolding sorted_wrt_iff_nth_less
proof (intro allI impI)
  fix i j
  assume "i < j" and "j < length (rev order)"
  then have "length order - Suc j < length order - Suc i \<and>
      length order - Suc i < length order \<and>
      order ! (length order - Suc j) = rev order ! j \<and>
      order ! (length order - Suc i) = rev order ! i"
    by (auto simp: rev_nth)
  then show "\<exists>p q. p < q \<and> q < length order \<and> order ! p = rev order ! j \<and>
      order ! q = rev order ! i"
    by blast
qed

lemma relevant_indices_placed_later:
  "sorted_wrt (\<lambda>a b. \<exists>p q. p < q \<and> q < length (argsort tie xs) \<and>
                        argsort tie xs ! p = b \<and> argsort tie xs ! q = a)
     (relevant_indices tie xs k)"
  unfolding relevant_indices_def top_indices_def
  by (intro sorted_wrt_filter sorted_wrt_slice_to rev_placed_later)

lemma distinct_relevant_indices: "distinct (relevant_indices tie xs k)"
  unfolding relevant_indices_def top_indices_def
  by (intro distinct_filter distinct_slice_to) (simp add: distinct_argsort)

lemma set_top_indices: "set (top_indices tie xs k) \<subseteq> {0..<length xs}"
  unfolding top_indices_def using slice_to_sub [of k "rev (argsort tie xs)"]
  by (simp add: set_argsort)

lemma scores_descending:
  fixes sims :: "real list"
  assumes "sorted_wrt (\<lambda>a b. sims ! b \<le> sims ! a) idxs"
  shows "sorted_wrt (\<lambda>a b. snd b \<le> snd a) (map (\<lambda>idx. (emps ! idx, sims ! idx)) idxs)"
  using assms by (simp add: sorted_wrt_map)

lemma ranked_is_roster:
  assumes "length sims = length emps"
  shows "mset (map (\<lambda>idx. (emps ! idx, sims ! idx)) (rev (argsort tie sims)))
           = mset (zip emps sims)"
proof -
  have "map (\<lambda>idx. (emps ! idx, sims ! idx)) [0..<length sims] = zip emps sims"
    using assms by (intro nth_equalityI) simp_all
  moreover have "mset (argsort tie sims) = mset [0..<length sims]"
    by (rule mset_argsort)
  ultimately show ?thesis
    by (metis mset_map mset_rev)
qed

section \<open>The ranker on a system built by the constructor\<close>

lemma collect_relevant_in_range:
  "\<forall>idx\<in>set idxs. idx < length emps \<Longrightarrow>
   collect_relevant emps sims idxs acc =
     Inr (acc @ map (\<lambda>idx. (emps ! idx, sims ! idx)) (filter (\<lambda>idx. sims ! idx > 1 / 10) idxs))"
  by (induction idxs arbitrary: acc) auto

lemma length_query_similarities:
  "length (query_similarities ext (RAGSystem_init ext emps) query) = length emps"
  by (simp add: query_similarities_def RAGSystem_init_def create_employee_embeddings_def)

lemma retrieve_init:
  "retrieve_relevant_employees ext (RAGSystem_init ext emps) query top_k =
     Inr (map (\<lambda>idx. (emps ! idx, query_similarities ext (RAGSystem_init ext emps) query ! idx))
            (relevant_indices (tie_break ext)
               (query_similarities ext (RAGSystem_init ext emps) query) top_k))"
proof (cases "emps = []")
  case True
  then show ?thesis
    by (simp add: retrieve_relevant_employees_def RAGSystem_init_def relevant_indices_def
        top_indices_def argsort_def slice_to_def query_similarities_def
        create_employee_embeddings_def)
next
  case False
  let ?sims = "query_similarities ext (RAGSystem_init ext emps) query"
  have "\<forall>idx\<in>set (top_indices (tie_break ext) ?sims top_k). idx < length emps"
    using set_top_indices [of "tie_break ext" ?sims top_k]
      length_query_similarities [of ext emps query]
    by auto
  then have "collect_relevant emps ?sims (top_indices (tie_break ext) ?sims top_k) [] =
      Inr (map (\<lambda>idx. (emps ! idx, ?sims ! idx)) (relevant_indices (tie_break ext) ?sims top_k))"
    by (simp add: collect_relevant_in_range relevant_indices_def)
  moreover have "employees (RAGSystem_init ext emps) = emps"
    "employee_embeddings (RAGSystem_init ext emps) \<noteq> []"
    using False by (simp_all add: RAGSystem_init_def create_employee_embeddings_def)
  ultimately show ?thesis
    using False by (simp add: retrieve_relevant_employees_def Let_def)
qed

lemma retrieve_descending:
  "\<exists>out. retrieve_relevant_employees ext (RAGSystem_init ext emps) query top_k = Inr out \<and>
         sorted_wrt (\<lambda>a b. snd b \<le> snd a) out"
proof -
  let ?sims = "query_similarities ext (RAGSystem_init ext emps) query"
  have "sorted_wrt (\<lambda>a b. snd b \<le> snd a)
          (map (\<lambda>idx. (emps ! idx, ?sims ! idx)) (relevant_indices (tie_break ext) ?sims top_k))"
    by (rule scores_descending) (rule relevant_indices_descending)
  with retrieve_init [of ext emps query top_k] show ?thesis
    by blast
qed

lemma tied_sample:
  "retrieve_relevant_employees tied (RAGSystem_init tied [alice, bob]) (lit ''q'') 5
     = Inr [(bob, 1 / 2), (alice, 1 / 2)]"
  by code_simp

lemma tied_other_sample:
  "retrieve_relevant_employees tied_other (RAGSystem_init tied_other [alice, bob]) (lit ''q'') 5
     = Inr [(alice, 1 / 2), (bob, 1 / 2)]"
  by code_simp

lemma tied_sample_similarities:
  "query_similarities tied (RAGSystem_init tied [alice, bob]) (lit ''q'') = [1 / 2, 1 / 2]"
  by code_simp

lemma tied_sample_indices: "relevant_indices (tie_break tied) [1 / 2, 1 / 2] 5 = [1, 0]"
  by code_simp

lemma tied_sample_order: "argsort (tie_break tied) [1 / 2, 1 / 2] = [0, 1]"
  by code_simp

lemma by_length_sample:
  "retrieve_relevant_employees by_length (RAGSystem_init by_length [carol, bob, alice])
     (lit ''q'') 3
     = Inr [(alice, 3 / 2), (bob, 1 / 5)]"
  by code_simp

lemma by_length_sample_5:
  "retrieve_relevant_employees by_length (RAGSystem_init by_length [carol, bob, alice])
     (lit ''q'') 5
     = Inr [(alice, 3 / 2), (bob, 1 / 5)]"
  by code_simp

section \<open>Claims about the ranker\<close>

text \<open>
  Claim C1, as the specification has it: two candidates with exactly equal similarity
  scores come out in roster order, the lower index first. The ranker reverses what
  \<open>np.argsort\<close> returns and has no other rule for equal scores. On the roster Alice, Bob
  with both scores 0.5, \<open>np.argsort\<close> returns the indices 0, 1 and the ranker lists Bob
  before Alice.
\<close>

theorem ties_roster_order_counterexample:
  "argsort (tie_break tied) [1 / 2, 1 / 2] = [0, 1] \<and>
   retrieve_relevant_employees tied (RAGSystem_init tied [alice, bob]) (lit ''q'') 5
     = Inr [([alice, bob] ! 1, 1 / 2), ([alice, bob] ! 0, 1 / 2)]
   \<and> [alice, bob] ! 0 \<noteq> [alice, bob] ! 1"
  by code_simp

text \<open>
  Claim C1, amended: the ranker returns the candidates at distinct indices of the roster,
  and of two returned candidates with exactly equal scores the one listed first is the
  one that \<open>np.argsort\<close> placed later: equal scores come out in the reverse of the order
  \<open>np.argsort\<close> gave them, whatever that order is. Roster order is not promised.
\<close>

theorem ties_in_reverse_argsort_order:
  fixes ext :: "'v externals"
  defines "sims \<equiv> (\<lambda>ext emps query. query_similarities ext (RAGSystem_init ext emps) query)"
  shows "\<exists>idxs order.
           order = argsort (tie_break ext) (sims ext emps query) \<and>
           idxs = relevant_indices (tie_break ext) (sims ext emps query) top_k \<and>
           retrieve_relevant_employees ext (RAGSystem_init ext emps) query top_k =
             Inr (map (\<lambda>idx. (emps ! idx, sims ext emps query ! idx)) idxs) \<and>
           distinct idxs \<and>
           (\<forall>idx \<in> set idxs. idx < length emps) \<and>
           (\<forall>i j. i < j \<and> j < length idxs \<and>
                  sims ext emps query ! (idxs ! i) = sims ext emps query ! (idxs ! j)
                  \<longrightarrow> (\<exists>p q. p < q \<and> q < length order \<and>
                             order ! p = idxs ! j \<and> order ! q = idxs ! i))"
proof -
  let ?sims = "query_similarities ext (RAGSystem_init ext emps) query"
  let ?idxs = "relevant_indices (tie_break ext) ?sims top_k"
  let ?order = "argsort (tie_break ext) ?sims"
  have "idx < length emps" if "idx \<in> set ?idxs" for idx
    using that set_top_indices [of "tie_break ext" ?sims top_k]
      length_query_similarities [of ext emps query]
    by (auto simp: relevant_indices_def)
  moreover have "\<exists>p q. p < q \<and> q < length ?order \<and> ?order ! p = ?idxs ! j \<and>
      ?order ! q = ?idxs ! i"
    if "i < j" "j < length ?idxs" for i j
    using sorted_wrt_nth_less [OF relevant_indices_placed_later that] .
  ultimately show ?thesis
    unfolding sims_def
    using retrieve_init [of ext emps query top_k]
      distinct_relevant_indices [of "tie_break ext" ?sims top_k]
    by blast
qed

theorem ties_in_reverse_argsort_order_witness:
  "\<exists>idxs order.
     order = [0, 1] \<and> idxs = [1, 0] \<and>
     retrieve_relevant_employees tied (RAGSystem_init tied [alice, bob]) (lit ''q'') 5 =
       Inr (map (\<lambda>idx. ([alice, bob] ! idx, [1 / 2, 1 / 2] ! idx)) idxs) \<and>
     (0 :: nat) < 1 \<and> 1 < length idxs \<and>
     [1 / 2, 1 / 2 :: real] ! (idxs ! 0) = [1 / 2, 1 / 2] ! (idxs ! 1) \<and>
     order ! 0 = idxs ! 1 \<and> order ! 1 = idxs ! 0 \<and>
     retrieve_relevant_employees tied_other (RAGSystem_init tied_other [alice, bob])
       (lit ''q'') 5 = Inr [(alice, 1 / 2), (bob, 1 / 2)]"
  using ties_in_reverse_argsort_order
    [where ext = tied and emps = "[alice, bob]" and query = "lit ''q''" and top_k = 5]
  by (simp add: tied_sample_similarities tied_sample_indices tied_sample_order
      tied_other_sample)

text \<open>
  Claim C2: with \<open>top_k\<close> a count (not negative), the ranker returns the candidates
  among the first \<open>top_k\<close> of the whole roster ranked by descending similarity whose
  score is above 0.1. So it returns at most \<open>top_k\<close> candidates, every one with a score
  strictly greater than 0.1, also when that leaves fewer than \<open>top_k\<close>.
\<close>

theorem top_k_then_threshold:
  fixes ext :: "'v externals" and emps :: "employee list" and query :: pystr
  assumes "0 \<le> top_k"
  defines "sims \<equiv> query_similarities ext (RAGSystem_init ext emps) query"
  shows "\<exists>ranked out.
           mset ranked = mset (zip emps sims) \<and>
           sorted_wrt (\<lambda>a b. snd b \<le> snd a) ranked \<and>
           retrieve_relevant_employees ext (RAGSystem_init ext emps) query top_k = Inr out \<and>
           out = filter (\<lambda>(emp, score). score > 1 / 10) (take (nat top_k) ranked) \<and>
           length out \<le> nat top_k \<and>
           (\<forall>(emp, score) \<in> set out. score > 1 / 10)"
proof -
  let ?pair = "\<lambda>idx. (emps ! idx, sims ! idx)"
  let ?ranked = "map ?pair (rev (argsort (tie_break ext) sims))"
  let ?out = "map ?pair (relevant_indices (tie_break ext) sims top_k)"
  have len: "length sims = length emps"
    unfolding sims_def by (rule length_query_similarities)
  have "sorted_wrt (\<lambda>a b. sims ! b \<le> sims ! a) (rev (argsort (tie_break ext) sims))"
    by (rule rev_argsort_descending)
  then have sorted: "sorted_wrt (\<lambda>a b. snd b \<le> snd a) ?ranked"
    by (rule scores_descending)
  have out: "?out = filter (\<lambda>(emp, score). score > 1 / 10) (take (nat top_k) ?ranked)"
    using assms(1)
    by (simp add: relevant_indices_def top_indices_def slice_to_def filter_map take_map
        comp_def)
  have "length ?out \<le> length (take (nat top_k) ?ranked)"
    unfolding out by (rule length_filter_le)
  then have short: "length ?out \<le> nat top_k"
    by simp
  have above: "\<forall>(emp, score) \<in> set ?out. score > 1 / 10"
    unfolding out by auto
  have "retrieve_relevant_employees ext (RAGSystem_init ext emps) query top_k = Inr ?out"
    unfolding sims_def by (rule retrieve_init)
  with ranked_is_roster [OF len] sorted out short above show ?thesis
    by blast
qed

theorem top_k_then_threshold_witness:
  "(0 :: int) \<le> 3 \<and>
   (\<exists>out. retrieve_relevant_employees by_length (RAGSystem_init by_length [carol, bob, alice])
            (lit ''q'') 3 = Inr out \<and>
          out = [(alice, 3 / 2), (bob, 1 / 5)] \<and> length out \<le> nat 3 \<and>
          snd (out ! 0) > 1 / 10 \<and> snd (out ! 1) > 1 / 10)"
proof -
  have "(0 :: int) \<le> 3"
    by simp
  from top_k_then_threshold
    [OF this, where ext = by_length and emps = "[carol, bob, alice]" and query = "lit ''q''"]
  obtain out where
    "retrieve_relevant_employees by_length (RAGSystem_init by_length [carol, bob, alice])
       (lit ''q'') 3 = Inr out"
    "length out \<le> nat 3" "\<forall>(emp, score) \<in> set out. score > 1 / 10"
    by blast
  then show ?thesis
    by (auto simp: by_length_sample)
qed

text \<open>
  Claim C3: the ranker's output is ordered by descending similarity score: of two
  returned candidates, the one with the strictly greater score appears first.
\<close>

theorem ranking_descending:
  "\<exists>out. retrieve_relevant_employees ext (RAGSystem_init ext emps) query top_k = Inr out \<and>
         sorted_wrt (\<lambda>a b. snd b \<le> snd a) out \<and>
         (\<forall>i j. i < length out \<and> j < length out \<and> snd (out ! j) < snd (out ! i) \<longrightarrow> i < j)"
proof -
  from retrieve_descending [of ext emps query top_k] obtain out where
    r: "retrieve_relevant_employees ext (RAGSystem_init ext emps) query top_k = Inr out"
    and sorted: "sorted_wrt (\<lambda>a b. snd b \<le> snd a) out"
    by blast
  have "i < j" if "i < length out" "j < length out" "snd (out ! j) < snd (out ! i)" for i j
  proof (rule ccontr)
    assume "\<not> i < j"
    then consider "j < i" | "i = j" by linarith
    then show False
    proof cases
      case 1
      from sorted 1 that(1) have "snd (out ! i) \<le> snd (out ! j)"
        by (rule sorted_wrt_nth_less)
      with that(3) show False by simp
    next
      case 2
      with that(3) show False by simp
    qed
  qed
  with r sorted show ?thesis
    by blast
qed

theorem ranking_descending_witness:
  "\<exists>out. retrieve_relevant_employees by_length (RAGSystem_init by_length [carol, bob, alice])
           (lit ''q'') 5 = Inr out \<and>
         out = [(alice, 3 / 2), (bob, 1 / 5)] \<and>
         (0 :: nat) < length out \<and> 1 < length out \<and> snd (out ! 1) < snd (out ! 0) \<and>
         sorted_wrt (\<lambda>a b. snd b \<le> snd a) out"
  using ranking_descending
    [where ext = by_length and emps = "[carol, bob, alice]" and query = "lit ''q''" and top_k = 5]
  by (simp add: by_length_sample_5)

section \<open>Claims about the query pipeline\<close>

text \<open>
  Claim C4: on an empty roster the ranker returns the empty list at its first test,
  whatever the embedding and similarity functions are, and \<open>process_query\<close> returns
  the fixed no-match message, an empty list of employees and the confidence 0.0,
  for every query.
\<close>

theorem empty_roster:
  assumes "employees sys = []"
  shows "retrieve_relevant_employees ext sys query top_k = Inr [] \<and>
         process_query ext sys query =
           Inr \<lparr>response = no_match_message, relevant_employees = [], confidence_score = 0\<rparr>"
  using assms
  by (simp add: retrieve_relevant_employees_def process_query_def generate_response_def)

theorem empty_roster_witness:
  "employees (RAGSystem_init tied []) = [] \<and>
   retrieve_relevant_employees tied (RAGSystem_init tied []) (lit ''anything'') 5 = Inr [] \<and>
   process_query tied (RAGSystem_init tied []) (lit ''anything'') =
     Inr \<lparr>response = no_match_message, relevant_employees = [], confidence_score = 0\<rparr>"
proof -
  have "employees (RAGSystem_init tied []) = []"
    by (simp add: RAGSystem_init_def)
  from this empty_roster [OF this] show ?thesis
    by simp
qed

text \<open>
  Claim C5: the confidence score of \<open>process_query\<close> is the score of the first candidate
  the ranker returned, and 0.0 when it returned none; no returned candidate has a
  greater score.
\<close>

theorem confidence_is_top_score:
  "\<exists>ranked result.
     retrieve_relevant_employees ext (RAGSystem_init ext emps) query 5 = Inr ranked \<and>
     process_query ext (RAGSystem_init ext emps) query = Inr result \<and>
     relevant_employees result = map fst ranked \<and>
     confidence_score result = (if ranked = [] then 0 else snd (hd ranked)) \<and>
     (\<forall>(emp, score) \<in> set ranked. score \<le> confidence_score result)"
proof -
  from retrieve_descending [of ext emps query 5] obtain ranked where
    r: "retrieve_relevant_employees ext (RAGSystem_init ext emps) query 5 = Inr ranked"
    and s: "sorted_wrt (\<lambda>a b. snd b \<le> snd a) ranked"
    by blast
  let ?result = "\<lparr>response = generate_response ext query ranked,
                  relevant_employees = map fst ranked,
                  confidence_score = (case ranked of [] \<Rightarrow> 0 | first # _ \<Rightarrow> snd first)\<rparr>"
  have p: "process_query ext (RAGSystem_init ext emps) query = Inr ?result"
    by (simp add: process_query_def r)
  have c: "confidence_score ?result = (if ranked = [] then 0 else snd (hd ranked))"
    by (cases ranked) simp_all
  have "\<forall>(emp, score) \<in> set ranked. score \<le> confidence_score ?result"
    using s by (cases ranked) auto
  with r p c show ?thesis
    by (intro exI [of _ ranked] exI [of _ ?result]) simp
qed

theorem confidence_is_top_score_witness:
  "\<exists>ranked result.
     retrieve_relevant_employees by_length (RAGSystem_init by_length [carol, bob, alice]) (lit ''q'') 5
       = Inr ranked \<and>
     process_query by_length (RAGSystem_init by_length [carol, bob, alice]) (lit ''q'') = Inr result \<and>
     ranked = [(alice, 3 / 2), (bob, 1 / 5)] \<and>
     relevant_employees result = [alice, bob] \<and>
     confidence_score result = 3 / 2 \<and>
     snd (ranked ! 0) \<le> confidence_score result \<and>
     snd (ranked ! 1) \<le> confidence_score result"
  using confidence_is_top_score
    [where ext = by_length and emps = "[carol, bob, alice]" and query = "lit ''q''"]
  by (simp add: by_length_sample_5)

section \<open>Claims about the response\<close>

lemma foldl_append_concat: "foldl (\<lambda>acc x. acc @ f x) a xs = a @ concat (map f xs)"
  by (induction xs arbitrary: a) simp_all

lemma fallback_text:
  "relevant \<noteq> [] \<Longrightarrow>
   generate_fallback_response ext query relevant =
     lit ''Based on your query '' @ apostrophe @ query @ apostrophe
     @ lit '', I found '' @ str_nat (length relevant)
     @ lit '' relevant candidate(s):\<newline>\<newline>''
     @ concat (map (\<lambda>(i, employee, score). fallback_entry ext i employee score)
                 (enumerate 1 relevant))
     @ lit ''Would you like more details about any of these candidates ''
     @ lit ''or help with scheduling interviews?''"
proof -
  have "(\<lambda>response (i, employee, score). response @ fallback_entry ext i employee score)
      = (\<lambda>acc x. acc @ (case x of (i, employee, score) \<Rightarrow> fallback_entry ext i employee score))"
    by (simp add: fun_eq_iff split: prod.splits)
  then show ?thesis if "relevant \<noteq> []"
    using that by (simp add: generate_fallback_response_def Let_def foldl_append_concat)
qed

lemma first_letters:
  "lit ''Based on your query '' = 66 # lit ''ased on your query ''"
  "lit ''I couldn'' = 73 # lit '' couldn''"
  by code_simp+

text \<open>
  Claim C6: for a non-empty list of ranked candidates, when the generative call raises,
  \<open>generate_response\<close> returns what \<open>generate_fallback_response\<close> returns, and that is
  the template filled in: the line naming the query and the number of candidates, then
  for each candidate, in ranked order and numbered from 1, its name, experience, skills,
  projects, availability and match score, then the closing question. It is a string and
  no error, it is not empty, and it is not the no-match message.
\<close>

theorem generative_failure_falls_back:
  assumes "relevant \<noteq> []"
    and "chat_completion ext system_message (build_prompt query (build_context ext relevant))
           = Inl e"
  shows "generate_response ext query relevant = generate_fallback_response ext query relevant \<and>
         generate_fallback_response ext query relevant =
           lit ''Based on your query '' @ apostrophe @ query @ apostrophe
           @ lit '', I found '' @ str_nat (length relevant)
           @ lit '' relevant candidate(s):\<newline>\<newline>''
           @ concat (map (\<lambda>(i, employee, score).
                 lit ''**'' @ str_nat i @ lit ''. '' @ name employee @ lit ''** (''
                   @ str_int (experience_years employee) @ lit '' years experience)\<newline>''
                 @ lit ''   '' @ bullet @ lit '' Skills: ''
                   @ join (lit '', '') (skills employee) @ lit ''\<newline>''
                 @ lit ''   '' @ bullet @ lit '' Recent Projects: ''
                   @ join (lit '', '') (projects employee) @ lit ''\<newline>''
                 @ lit ''   '' @ bullet @ lit '' Availability: '' @ availability employee
                   @ lit ''\<newline>''
                 @ lit ''   '' @ bullet @ lit '' Match Score: '' @ format_pct ext score
                   @ lit ''\<newline>\<newline>'')
               (enumerate 1 relevant))
           @ lit ''Would you like more details about any of these candidates ''
           @ lit ''or help with scheduling interviews?'' \<and>
         generate_fallback_response ext query relevant \<noteq> [] \<and>
         generate_fallback_response ext query relevant \<noteq> no_match_message"
proof -
  have same: "generate_response ext query relevant = generate_fallback_response ext query relevant"
    using assms by (simp add: generate_response_def)
  have filled: "generate_fallback_response ext query relevant =
      66 # lit ''ased on your query '' @ apostrophe @ query @ apostrophe
      @ lit '', I found '' @ str_nat (length relevant)
      @ lit '' relevant candidate(s):\<newline>\<newline>''
      @ concat (map (\<lambda>(i, employee, score). fallback_entry ext i employee score)
                  (enumerate 1 relevant))
      @ lit ''Would you like more details about any of these candidates ''
      @ lit ''or help with scheduling interviews?''"
    using assms(1) by (simp add: fallback_text first_letters)
  have other: "no_match_message = 73 # lit '' couldn'' @ apostrophe
      @ lit ''t find any employees matching your criteria. ''
      @ lit ''Please try refining your search.''"
    by (simp add: no_match_message_def first_letters)
  have "generate_fallback_response ext query relevant \<noteq> []"
    "generate_fallback_response ext query relevant \<noteq> no_match_message"
    unfolding filled other by simp_all
  moreover have "fallback_entry ext = (\<lambda>i employee score.
                 lit ''**'' @ str_nat i @ lit ''. '' @ name employee @ lit ''** (''
                   @ str_int (experience_years employee) @ lit '' years experience)\<newline>''
                 @ lit ''   '' @ bullet @ lit '' Skills: ''
                   @ join (lit '', '') (skills employee) @ lit ''\<newline>''
                 @ lit ''   '' @ bullet @ lit '' Recent Projects: ''
                   @ join (lit '', '') (projects employee) @ lit ''\<newline>''
                 @ lit ''   '' @ bullet @ lit '' Availability: '' @ availability employee
                   @ lit ''\<newline>''
                 @ lit ''   '' @ bullet @ lit '' Match Score: '' @ format_pct ext score
                   @ lit ''\<newline>\<newline>'')"
    by (simp add: fun_eq_iff fallback_entry_def)
  ultimately show ?thesis
    using same fallback_text [OF assms(1), of ext query] by simp
qed

lemma alice_fallback:
  "generate_fallback_response tied (lit ''Python developer'') [(alice, 1 / 2)] =
     lit ''Based on your query '' @ apostrophe @ lit ''Python developer'' @ apostrophe
     @ lit '', I found 1 relevant candidate(s):\<newline>\<newline>''
     @ lit ''**1. Alice** (5 years experience)\<newline>''
     @ lit ''   '' @ bullet @ lit '' Skills: Python, ML\<newline>''
     @ lit ''   '' @ bullet @ lit '' Recent Projects: Health AI\<newline>''
     @ lit ''   '' @ bullet @ lit '' Availability: available\<newline>''
     @ lit ''   '' @ bullet @ lit '' Match Score: 50.0%\<newline>\<newline>''
     @ lit ''Would you like more details about any of these candidates ''
     @ lit ''or help with scheduling interviews?''"
  by code_simp

theorem generative_failure_falls_back_witness:
  "[(alice, 1 / 2)] \<noteq> [] \<and>
   chat_completion tied system_message
     (build_prompt (lit ''Python developer'') (build_context tied [(alice, 1 / 2)]))
     = Inl APIError \<and>
   generate_response tied (lit ''Python developer'') [(alice, 1 / 2)] =
     lit ''Based on your query '' @ apostrophe @ lit ''Python developer'' @ apostrophe
     @ lit '', I found 1 relevant candidate(s):\<newline>\<newline>''
     @ lit ''**1. Alice** (5 years experience)\<newline>''
     @ lit ''   '' @ bullet @ lit '' Skills: Python, ML\<newline>''
     @ lit ''   '' @ bullet @ lit '' Recent Projects: Health AI\<newline>''
     @ lit ''   '' @ bullet @ lit '' Availability: available\<newline>''
     @ lit ''   '' @ bullet @ lit '' Match Score: 50.0%\<newline>\<newline>''
     @ lit ''Would you like more details about any of these candidates ''
     @ lit ''or help with scheduling interviews?'' \<and>
   generate_response tied (lit ''Python developer'') [(alice, 1 / 2)] \<noteq> no_match_message"
proof -
  have nonempty: "[(alice, 1 / 2 :: real)] \<noteq> []"
    by simp
  have fails: "chat_completion tied system_message
      (build_prompt (lit ''Python developer'') (build_context tied [(alice, 1 / 2)]))
      = Inl APIError"
    by (simp add: tied_def stub_def)
  note fallback = generative_failure_falls_back [OF nonempty fails]
  from fallback have
    "generate_response tied (lit ''Python developer'') [(alice, 1 / 2)]
       = generate_fallback_response tied (lit ''Python developer'') [(alice, 1 / 2)]"
    "generate_fallback_response tied (lit ''Python developer'') [(alice, 1 / 2)]
       \<noteq> no_match_message"
    by blast+
  with fails show ?thesis
    by (simp add: alice_fallback)
qed

section \<open>Claims about the text of an employee\<close>

lemma rstrip_append_spaces:
  assumes "\<forall>c \<in> set ws. is_space c"
  shows "rstrip (xs @ ws) = rstrip xs"
proof -
  have "dropWhile is_space (rev ws @ rev xs) = dropWhile is_space (rev xs)"
    by (rule dropWhile_append2) (use assms in auto)
  then show ?thesis
    by (simp add: rstrip_def)
qed

lemma rstrip_no_trailing_space:
  assumes "xs \<noteq> []" and "\<not> is_space (last xs)"
  shows "rstrip xs = xs"
  using assms by (cases xs rule: rev_cases) (auto simp: rstrip_def)

lemma template_literals:
  "lit ''\<newline>        Name: '' = lit ''\<newline>        '' @ 78 # lit ''ame: ''"
  "lit ''Name: '' = 78 # lit ''ame: ''"
  "\<forall>c \<in> set (lit ''\<newline>        ''). is_space c"
  "\<not> is_space 78"
  by code_simp+

lemma lstrip_template: "lstrip (lit ''\<newline>        Name: '' @ rest) = lit ''Name: '' @ rest"
proof -
  have "dropWhile is_space (lit ''\<newline>        '' @ 78 # lit ''ame: '' @ rest)
      = dropWhile is_space (78 # lit ''ame: '' @ rest)"
    by (rule dropWhile_append2) (use template_literals(3) in auto)
  then show ?thesis
    by (simp add: lstrip_def template_literals)
qed

text \<open>
  Claim C7, as the specification has it: the text of every employee contains the
  availability, after the other fields. The text is stripped as a whole, and the
  availability is its last field: white space at the end of the availability is lost.
  Dana's availability is \<open>busy\<close> followed by a space, and her text does not contain it.
\<close>

theorem availability_contained_counterexample:
  "availability dana = lit ''busy '' \<and>
   \<not> contains (availability dana) (create_employee_text dana)"
  by code_simp

text \<open>
  Claim C7, amended: \<open>create_employee_text\<close> is a function of the record alone, and its
  value is, in this order and with these labels, the name, the comma-joined skills, the
  experience in years, the comma-joined projects, the department, the location and the
  availability, with the white space at the end of the whole text removed. A department
  or a location prints as \<open>Unknown\<close> when its key is absent and as \<open>None\<close> when its value
  is \<open>null\<close>. When the availability is not empty and does not end with white space,
  nothing is removed.
\<close>

theorem create_employee_text_layout:
  fixes e :: employee
  defines "body \<equiv>
     lit ''Name: '' @ name e
     @ lit ''\<newline>        Skills: '' @ join (lit '', '') (skills e)
     @ lit ''\<newline>        Experience: '' @ str_int (experience_years e) @ lit '' years''
     @ lit ''\<newline>        Projects: '' @ join (lit '', '') (projects e)
     @ lit ''\<newline>        Department: ''
     @ (case department e of Absent \<Rightarrow> lit ''Unknown'' | Null \<Rightarrow> lit ''None'' | Present d \<Rightarrow> d)
     @ lit ''\<newline>        Location: ''
     @ (case location e of Absent \<Rightarrow> lit ''Unknown'' | Null \<Rightarrow> lit ''None'' | Present l \<Rightarrow> l)
     @ lit ''\<newline>        Availability: '' @ availability e"
  shows "create_employee_text e = rstrip body \<and>
         (availability e \<noteq> [] \<and> \<not> is_space (last (availability e))
            \<longrightarrow> create_employee_text e = body)"
proof -
  have fields: "format_field (get_or v (lit ''Unknown''))
      = (case v of Absent \<Rightarrow> lit ''Unknown'' | Null \<Rightarrow> lit ''None'' | Present s \<Rightarrow> s)" for v
    by (cases v) (simp_all add: format_field_def get_or_def)
  have "lstrip (employee_text_template e) = body @ lit ''\<newline>        ''"
    unfolding employee_text_template_def Let_def append_assoc lstrip_template
    by (simp add: body_def fields)
  then have "create_employee_text e = rstrip (body @ lit ''\<newline>        '')"
    by (simp add: create_employee_text_def strip_def)
  then have stripped: "create_employee_text e = rstrip body"
    by (simp add: rstrip_append_spaces template_literals)
  have "rstrip body = body" if "availability e \<noteq> []" "\<not> is_space (last (availability e))"
  proof (rule rstrip_no_trailing_space)
    show "body \<noteq> []" by (simp add: body_def template_literals)
    from that(1) have "last body = last (availability e)"
      by (simp add: body_def)
    with that(2) show "\<not> is_space (last body)" by simp
  qed
  with stripped show ?thesis by simp
qed

lemma sample_texts:
  "create_employee_text alice =
     lit ''Name: Alice\<newline>        Skills: Python, ML\<newline>        Experience: 5 years''
     @ lit ''\<newline>        Projects: Health AI\<newline>        Department: Unknown''
     @ lit ''\<newline>        Location: Unknown\<newline>        Availability: available''"
  "create_employee_text dana =
     lit ''Name: Dana\<newline>        Skills: SQL\<newline>        Experience: 7 years''
     @ lit ''\<newline>        Projects: Ledger\<newline>        Department: None''
     @ lit ''\<newline>        Location: Unknown\<newline>        Availability: busy''"
  by code_simp+

theorem create_employee_text_layout_witness:
  "availability alice \<noteq> [] \<and> \<not> is_space (last (availability alice)) \<and>
   create_employee_text alice =
     lit ''Name: '' @ lit ''Alice''
     @ lit ''\<newline>        Skills: '' @ lit ''Python, ML''
     @ lit ''\<newline>        Experience: '' @ lit ''5'' @ lit '' years''
     @ lit ''\<newline>        Projects: '' @ lit ''Health AI''
     @ lit ''\<newline>        Department: '' @ lit ''Unknown''
     @ lit ''\<newline>        Location: '' @ lit ''Unknown''
     @ lit ''\<newline>        Availability: '' @ lit ''available'' \<and>
   create_employee_text dana =
     rstrip (lit ''Name: '' @ lit ''Dana''
     @ lit ''\<newline>        Skills: '' @ lit ''SQL''
     @ lit ''\<newline>        Experience: '' @ lit ''7'' @ lit '' years''
     @ lit ''\<newline>        Projects: '' @ lit ''Ledger''
     @ lit ''\<newline>        Department: '' @ lit ''None''
     @ lit ''\<newline>        Location: '' @ lit ''Unknown''
     @ lit ''\<newline>        Availability: '' @ lit ''busy '')"
proof -
  have a: "availability alice \<noteq> [] \<and> \<not> is_space (last (availability alice))"
    by code_simp
  have printed: "str_int 5 = lit ''5''" "str_int 7 = lit ''7''"
    "join (lit '', '') [lit ''Python'', lit ''ML''] = lit ''Python, ML''"
    by code_simp+
  note layout_alice = create_employee_text_layout [of alice, THEN conjunct2, rule_format, OF a]
  note layout_dana = create_employee_text_layout [of dana, THEN conjunct1]
  from a layout_alice layout_dana printed show ?thesis
    by (simp add: alice_def dana_def)
qed

section \<open>Claims about loading the roster\<close>

text \<open>
  Claim C8, as the specification has it: malformed content, and content without the
  expected structure, give an empty roster. \<open>load_employees\<close> catches
  \<open>FileNotFoundError\<close> only: content that is not JSON, an object without the member
  \<open>employees\<close>, and a value that is not an object each raise to the caller.
\<close>

theorem malformed_source_counterexample:
  "load_employees Malformed = Inl JSONDecodeError \<and>
   load_employees (Parsed (JObject [])) = Inl KeyError \<and>
   load_employees (Parsed (JArray [])) = Inl TypeError"
  by simp

text \<open>
  Claim C8, amended: a missing file gives an empty roster and no error; an object with a
  member \<open>employees\<close> gives the value of that member; content that is not JSON raises
  \<open>JSONDecodeError\<close>, an object without the member raises \<open>KeyError\<close>, and a value that
  is not an object raises \<open>TypeError\<close>, each to the caller.
\<close>

theorem load_employees_outcomes:
  "load_employees Missing = Inr (JArray []) \<and>
   (\<forall>members. ''employees'' \<in> fst ` set members \<longrightarrow>
      (\<exists>roster. load_employees (Parsed (JObject members)) = Inr roster \<and>
                (''employees'', roster) \<in> set members)) \<and>
   load_employees Malformed = Inl JSONDecodeError \<and>
   (\<forall>members. ''employees'' \<notin> fst ` set members \<longrightarrow>
      load_employees (Parsed (JObject members)) = Inl KeyError) \<and>
   (\<forall>data. (\<nexists>members. data = JObject members) \<longrightarrow> load_employees (Parsed data) = Inl TypeError)"
proof (intro conjI allI impI)
  fix members :: "(string \<times> json) list"
  assume "''employees'' \<in> fst ` set members"
  then have "''employees'' \<in> dom (map_of (rev members))"
    by (simp add: dom_map_of_conv_image_fst)
  then obtain roster where r: "map_of (rev members) ''employees'' = Some roster"
    by blast
  then have "(''employees'', roster) \<in> set members"
    using map_of_SomeD by fastforce
  with r show "\<exists>roster. load_employees (Parsed (JObject members)) = Inr roster \<and>
                (''employees'', roster) \<in> set members"
    by simp
next
  fix members :: "(string \<times> json) list"
  assume "''employees'' \<notin> fst ` set members"
  then have "map_of (rev members) ''employees'' = None"
    by (simp add: map_of_eq_None_iff)
  then show "load_employees (Parsed (JObject members)) = Inl KeyError"
    by simp
next
  fix data
  assume "\<nexists>members. data = JObject members"
  then show "load_employees (Parsed data) = Inl TypeError"
    by (cases data) simp_all
qed simp_all

theorem load_employees_outcomes_witness:
  "''employees'' \<in> fst ` set [(''employees'', JArray [JString ''x''])] \<and>
   load_employees (Parsed (JObject [(''employees'', JArray [JString ''x''])]))
     = Inr (JArray [JString ''x'']) \<and>
   ''employees'' \<notin> fst ` set [(''staff'', JArray [])] \<and>
   load_employees (Parsed (JObject [(''staff'', JArray [])])) = Inl KeyError \<and>
   (\<nexists>members. JArray [] = JObject members) \<and>
   load_employees (Parsed (JArray [])) = Inl TypeError \<and>
   load_employees Missing = Inr (JArray [])"
  using load_employees_outcomes by simp

section \<open>Claims about the search endpoint\<close>

lemma has_any_skill_iff:
  "has_any_skill lower (skill_list_of lower s) emp \<longleftrightarrow>
     (\<exists>requested \<in> set (split comma s). \<exists>skill \<in> set (skills emp).
        lower (lower (strip requested)) = lower skill)"
  by (auto simp: has_any_skill_def skill_list_of_def list_ex_iff)

lemma department_matches_result:
  "department_matches lower d emps =
     (if \<exists>emp \<in> set emps. department emp = Null then Inl AttributeError
      else Inr (filter (\<lambda>emp. lower (case department emp of Present own \<Rightarrow> own | _ \<Rightarrow> [])
                                = lower d) emps))"
  by (induction emps) (auto simp: get_or_def split: optional.splits)

lemma filter_by_department_sub:
  "filter_by_department lower dp emps = Inr kept \<Longrightarrow> set kept \<subseteq> set emps"
  by (auto simp: filter_by_department_def department_matches_result
      split: option.splits if_splits)

lemma filter_by_department_error:
  "filter_by_department lower dp emps = Inl e \<Longrightarrow>
     e = AttributeError \<and> (\<exists>d. dp = Some d \<and> d \<noteq> []) \<and>
     (\<exists>emp \<in> set emps. department emp = Null)"
  by (auto simp: filter_by_department_def department_matches_result
      split: option.splits if_splits)

lemma earlier_filters_sub:
  "set (filter_by_availability lower av
         (filter_by_experience mn (filter_by_skills lower sk roster))) \<subseteq> set roster"
  by (auto simp: filter_by_availability_def filter_by_experience_def filter_by_skills_def
      split: option.splits)

lemma search_sample:
  "search_employees ascii_lower [alice, bob, carol] (Some (lit ''python , GO'')) None None None
   = Inr \<lparr>result_employees = [alice, carol], result_count = 2\<rparr>"
  by code_simp

lemma search_sample_experience:
  "search_employees ascii_lower [alice, bob, carol] None (Some 3) None None
   = Inr \<lparr>result_employees = [alice, bob], result_count = 2\<rparr>"
  by code_simp

lemma search_sample_null:
  "search_employees ascii_lower [alice, dana] None (Some 3) None (Some (lit ''web''))
   = Inl AttributeError"
  by code_simp

text \<open>
  Claim C9, as the specification has it: the endpoint returns the employees with a skill
  that a requested skill equals or occurs in, case apart. The endpoint tests membership
  in the list of the employee's skills, so it finds equal skills only: asked for \<open>Py\<close>,
  it does not return Alice, whose skill \<open>Python\<close> contains it.
\<close>

theorem substring_skill_counterexample:
  "search_employees ascii_lower [alice] (Some (lit ''Py'')) None None None
     = Inr \<lparr>result_employees = [], result_count = 0\<rparr> \<and>
   spec_search_by_skills ascii_lower [alice] (lit ''Py'') = [alice]"
  by code_simp

text \<open>
  Claim C9, amended: for a non-empty skills parameter and no other parameter, the
  endpoint returns, in roster order, exactly the employees with a skill whose
  \<open>str.lower\<close> form is equal to that of one of the requested skills, these being the
  comma-separated parts of the parameter stripped of surrounding white space and put
  through \<open>str.lower\<close> (the test does so a second time); the count is the number of them.
  A requested skill that only occurs inside a skill does not match.
\<close>

theorem search_by_skills_exact:
  assumes "s \<noteq> []"
  shows "search_employees lower roster (Some s) None None None =
           Inr \<lparr>result_employees =
                  filter (\<lambda>emp. \<exists>requested \<in> set (split comma s). \<exists>skill \<in> set (skills emp).
                            lower (lower (strip requested)) = lower skill) roster,
                result_count =
                  length (filter (\<lambda>emp. \<exists>requested \<in> set (split comma s).
                                    \<exists>skill \<in> set (skills emp).
                                      lower (lower (strip requested)) = lower skill) roster)\<rparr>"
proof -
  have "has_any_skill lower (skill_list_of lower s) =
      (\<lambda>emp. \<exists>requested \<in> set (split comma s). \<exists>skill \<in> set (skills emp).
                lower (lower (strip requested)) = lower skill)"
    by (rule ext) (rule has_any_skill_iff)
  with assms show ?thesis
    by (simp add: search_employees_def filter_by_skills_def filter_by_experience_def
        filter_by_availability_def filter_by_department_def Let_def)
qed

theorem search_by_skills_exact_witness:
  "lit ''python , GO'' \<noteq> [] \<and>
   search_employees ascii_lower [alice, bob, carol] (Some (lit ''python , GO'')) None None None
     = Inr \<lparr>result_employees = [alice, carol], result_count = 2\<rparr> \<and>
   filter (\<lambda>emp. \<exists>requested \<in> set (split comma (lit ''python , GO'')).
             \<exists>skill \<in> set (skills emp).
               ascii_lower (ascii_lower (strip requested)) = ascii_lower skill)
     [alice, bob, carol] = [alice, carol]"
proof -
  have "lit ''python , GO'' \<noteq> []"
    by code_simp
  from this search_by_skills_exact [OF this, of ascii_lower "[alice, bob, carol]"]
  show ?thesis
    by (simp add: search_sample)
qed

text \<open>
  Claim C10: a minimum experience of 0 filters nothing, as if the parameter were left
  out, whatever the other parameters are; with a positive minimum experience every
  employee returned has at least that many years of experience. The endpoint returns
  a result unless the department filter meets an employee whose department is \<open>null\<close>.
\<close>

theorem min_experience_zero_or_positive:
  "search_employees lower roster sk (Some 0) av dp = search_employees lower roster sk None av dp \<and>
   (0 < m \<longrightarrow>
      (\<forall>result. search_employees lower roster sk (Some m) av dp = Inr result \<longrightarrow>
         (\<forall>emp \<in> set (result_employees result). m \<le> experience_years emp))) \<and>
   (\<forall>e. search_employees lower roster sk mn av dp = Inl e \<longrightarrow>
      e = AttributeError \<and> (\<exists>d. dp = Some d \<and> d \<noteq> []) \<and>
      (\<exists>emp \<in> set roster. department emp = Null))"
proof -
  have zero: "search_employees lower roster sk (Some 0) av dp
      = search_employees lower roster sk None av dp"
    by (simp add: search_employees_def filter_by_experience_def)
  have positive: "\<forall>emp \<in> set (result_employees result). m \<le> experience_years emp"
    if "0 < m" and "search_employees lower roster sk (Some m) av dp = Inr result" for result
  proof -
    let ?kept = "filter_by_availability lower av
        (filter_by_experience (Some m) (filter_by_skills lower sk roster))"
    from that(2) obtain kept where "filter_by_department lower dp ?kept = Inr kept"
      and "result_employees result = kept"
      by (auto simp: search_employees_def Let_def split: sum.splits)
    then have "set (result_employees result) \<subseteq> set ?kept"
      using filter_by_department_sub by blast
    moreover have "\<forall>emp \<in> set ?kept. m \<le> experience_years emp"
      using that(1)
      by (auto simp: filter_by_availability_def filter_by_experience_def split: option.splits)
    ultimately show ?thesis
      by blast
  qed
  have failure: "e = AttributeError \<and> (\<exists>d. dp = Some d \<and> d \<noteq> []) \<and>
      (\<exists>emp \<in> set roster. department emp = Null)"
    if "search_employees lower roster sk mn av dp = Inl e" for e
  proof -
    let ?kept = "filter_by_availability lower av
        (filter_by_experience mn (filter_by_skills lower sk roster))"
    from that have "filter_by_department lower dp ?kept = Inl e"
      by (auto simp: search_employees_def Let_def split: sum.splits)
    then have "e = AttributeError \<and> (\<exists>d. dp = Some d \<and> d \<noteq> []) \<and>
        (\<exists>emp \<in> set ?kept. department emp = Null)"
      by (rule filter_by_department_error)
    with earlier_filters_sub [of lower av mn sk roster] show ?thesis
      by blast
  qed
  from zero positive failure show ?thesis
    by blast
qed

theorem min_experience_zero_or_positive_witness:
  "(0 :: int) < 3 \<and>
   search_employees ascii_lower [alice, bob, carol] None (Some 3) None None
     = Inr \<lparr>result_employees = [alice, bob], result_count = 2\<rparr> \<and>
   3 \<le> experience_years alice \<and> 3 \<le> experience_years bob \<and>
   search_employees ascii_lower [alice, bob, carol] None (Some 0) None None
     = search_employees ascii_lower [alice, bob, carol] None None None None \<and>
   search_employees ascii_lower [alice, dana] None (Some 3) None (Some (lit ''web''))
     = Inl AttributeError \<and>
   department dana = Null"
proof -
  note claim = min_experience_zero_or_positive
    [where lower = ascii_lower and roster = "[alice, bob, carol]" and sk = None and av = None
       and dp = None and m = 3 and mn = None]
  have "department dana = Null"
    by (simp add: dana_def)
  with claim show ?thesis
    by (simp add: search_sample_experience search_sample_null)
qed

end
